theory Spec2Isabelle
  imports Main "HOL-Library.Sublist" "HOL-Library.Stream" "HOL-Library.AList"
begin

section \<open>Python strings, as far as \<^verbatim>\<open>utils/prompting.py\<close> uses them\<close>

text \<open>
  Texts are lists of characters. HOL's \<^typ>\<open>char\<close> has the code points below 256, so the
  model covers Python strings over that range; \<open>is_space\<close> and \<open>is_digit\<close> are Python's
  \<^verbatim>\<open>str.isspace\<close> (which \<^verbatim>\<open>str.strip\<close> and the pattern \<^verbatim>\<open>\s\<close> use) and the pattern
  \<^verbatim>\<open>\d\<close>, restricted to it. Every exception the code can raise is a value of \<open>error\<close>;
  logging is not modelled.
\<close>

datatype error =
    RuntimeError
  | ValueError
  | IndexError
  | KeyError
  | UnboundLocalError
  | ValidationError
  | FormatError

definition bind_err :: "error + 'a \<Rightarrow> ('a \<Rightarrow> error + 'b) \<Rightarrow> error + 'b" where
  "bind_err m f = (case m of Inl e \<Rightarrow> Inl e | Inr x \<Rightarrow> f x)"

definition newline :: char where
  "newline = CHR 0x0A"

definition backslash :: char where
  "backslash = CHR 0x5C"

definition is_space :: "char \<Rightarrow> bool" where
  "is_space c \<longleftrightarrow>
     c \<in> set [CHR 0x09, CHR 0x0A, CHR 0x0B, CHR 0x0C, CHR 0x0D,
               CHR 0x1C, CHR 0x1D, CHR 0x1E, CHR 0x1F, CHR 0x20, CHR 0x85, CHR 0xA0]"

definition is_digit :: "char \<Rightarrow> bool" where
  "is_digit c \<longleftrightarrow> c \<in> set ''0123456789''"

text \<open>\<^verbatim>\<open>s.strip()\<close>: whitespace is dropped at both ends.\<close>

definition str_strip :: "string \<Rightarrow> string" where
  "str_strip s = rev (dropWhile is_space (rev (dropWhile is_space s)))"

text \<open>
  \<^verbatim>\<open>s.replace(old, new)\<close> has no count argument here: scanning from the left, every
  occurrence of \<open>old\<close> that does not overlap an earlier one is replaced. With an empty
  \<open>old\<close>, \<open>new\<close> is put before every character and at the end.
\<close>

function str_replace :: "string \<Rightarrow> string \<Rightarrow> string \<Rightarrow> string" where
  "str_replace old new [] = (if old = [] then new else [])"
| "str_replace old new (c # cs) =
     (if old = [] then new @ c # str_replace old new cs
      else if prefix old (c # cs)
        then new @ str_replace old new (drop (length old) (c # cs))
        else c # str_replace old new cs)"
  by pat_completeness auto
termination
  by (relation "measure (\<lambda>(old, new, s). length s)") auto

text \<open>
  \<^verbatim>\<open>s.split(sep)\<close>: an empty separator raises ValueError; otherwise the text is cut at
  every occurrence of \<open>sep\<close>, scanning from the left. \<open>seg\<close> holds the characters of the
  current segment, last first.
\<close>

function split_scan :: "string \<Rightarrow> string \<Rightarrow> string \<Rightarrow> string list" where
  "split_scan sep seg [] = [rev seg]"
| "split_scan sep seg (c # cs) =
     (if sep \<noteq> [] \<and> prefix sep (c # cs)
        then rev seg # split_scan sep [] (drop (length sep) (c # cs))
        else split_scan sep (c # seg) cs)"
  by pat_completeness auto
termination
  by (relation "measure (\<lambda>(sep, seg, s). length s)") auto

definition str_split :: "string \<Rightarrow> string \<Rightarrow> error + string list" where
  "str_split s sep = (if sep = [] then Inl ValueError else Inr (split_scan sep [] s))"

text \<open>\<^verbatim>\<open>sep.join(pieces)\<close>.\<close>

fun str_join :: "string \<Rightarrow> string list \<Rightarrow> string" where
  "str_join sep [] = []"
| "str_join sep [p] = p"
| "str_join sep (p # q # ps) = p @ sep @ str_join sep (q # ps)"

text \<open>\<^verbatim>\<open>xs[0]\<close> raises IndexError on an empty list.\<close>

definition first_item :: "'a list \<Rightarrow> error + 'a" where
  "first_item xs = (case xs of [] \<Rightarrow> Inl IndexError | x # _ \<Rightarrow> Inr x)"

section \<open>The three patterns of the postprocessor\<close>

text \<open>\<^verbatim>\<open>re.sub(r'\n', ' ', s)\<close>: every newline becomes one space.\<close>

definition re_sub_newline :: "string \<Rightarrow> string" where
  "re_sub_newline s = map (\<lambda>c. if c = newline then CHR '' '' else c) s"

text \<open>
  \<^verbatim>\<open>re.split(r'\d:', s)\<close>: the text is cut at every digit that a colon follows, scanning
  from the left; the two matched characters belong to no segment.
\<close>

fun re_split_index :: "string \<Rightarrow> string \<Rightarrow> string list" where
  "re_split_index seg [] = [rev seg]"
| "re_split_index seg [c] = [rev (c # seg)]"
| "re_split_index seg (d # c # cs) =
     (if is_digit d \<and> c = CHR '':''
        then rev seg # re_split_index [] cs
        else re_split_index (d # seg) (c # cs))"

text \<open>
  \<^verbatim>\<open>re.sub(r'\s+Simple:\s+', '', s)\<close> and the same for \<^verbatim>\<open>Complex:\<close>. A match at the
  start of \<open>s\<close> is a non-empty run of whitespace, the label, and a non-empty run of
  whitespace. Both runs are maximal: the label begins with a letter, so giving back
  whitespace of the first run never helps, and nothing follows the second run in the
  pattern. \<open>match_label\<close> returns the text after the match.
\<close>

definition match_label :: "string \<Rightarrow> string \<Rightarrow> string option" where
  "match_label label s =
     (let s1 = dropWhile is_space s in
      if length s1 < length s \<and> prefix label s1 then
        (let s2 = drop (length label) s1; s3 = dropWhile is_space s2 in
         if length s3 < length s2 then Some s3 else None)
      else None)"

lemma match_label_shorter: "match_label label s = Some r \<Longrightarrow> length r < length s"
proof -
  assume a: "match_label label s = Some r"
  have d: "\<And>xs. length (dropWhile is_space xs) \<le> length xs"
    by (simp add: length_dropWhile_le)
  from a have "r = dropWhile is_space (drop (length label) (dropWhile is_space s))"
    and "length (dropWhile is_space s) < length s"
    by (auto simp: match_label_def Let_def split: if_splits)
  then show ?thesis
    using d [of "drop (length label) (dropWhile is_space s)"] by simp
qed

function re_sub_label :: "string \<Rightarrow> string \<Rightarrow> string" where
  "re_sub_label label [] = []"
| "re_sub_label label (c # cs) =
     (case match_label label (c # cs) of
        Some r \<Rightarrow> re_sub_label label r
      | None \<Rightarrow> c # re_sub_label label cs)"
  by pat_completeness auto
termination
  by (relation "measure (\<lambda>(label, s). length s)") (auto dest: match_label_shorter)

section \<open>postprocess\_model\_outputs\<close>

text \<open>
  The body of the inner loop, for one candidate \<open>out_seq\<close> of the prompt \<open>input\<close>
  (steps 1 to 5 of the source and the final strip).
\<close>

definition echo_removal :: "string \<Rightarrow> string \<Rightarrow> string" where
  "echo_removal input out_seq = str_strip (str_replace input [] out_seq)"

definition strip_reference_index :: "string \<Rightarrow> error + string" where
  "strip_reference_index out_seq =
     first_item [str_strip x. x \<leftarrow> re_split_index [] out_seq, str_strip x \<noteq> []]"

definition postprocess_candidate :: "string \<Rightarrow> string \<Rightarrow> string \<Rightarrow> error + string" where
  "postprocess_candidate input example_separator out_seq =
     bind_err (str_split (echo_removal input out_seq) example_separator) (\<lambda>split_out_seq.
     bind_err (first_item split_out_seq) (\<lambda>head.
     bind_err (strip_reference_index (re_sub_newline head)) (\<lambda>out4.
       Inr (str_strip (re_sub_label ''Complex:'' (re_sub_label ''Simple:'' out4))))))"

text \<open>
  The inner loop over the candidates of prompt \<open>i\<close>: \<^verbatim>\<open>inputs[i]\<close> is read once per
  candidate and raises IndexError when there are fewer prompts than output rows.
\<close>

fun postprocess_row :: "string list \<Rightarrow> nat \<Rightarrow> string \<Rightarrow> string list \<Rightarrow> error + string list" where
  "postprocess_row inputs i example_separator [] = Inr []"
| "postprocess_row inputs i example_separator (out_seq # rest) =
     (if i < length inputs then
        bind_err (postprocess_candidate (inputs ! i) example_separator out_seq) (\<lambda>h.
        bind_err (postprocess_row inputs i example_separator rest) (\<lambda>hs. Inr (h # hs)))
      else Inl IndexError)"

fun postprocess_rows ::
  "string list \<Rightarrow> nat \<Rightarrow> string \<Rightarrow> string list list \<Rightarrow> error + string list list" where
  "postprocess_rows inputs i example_separator [] = Inr []"
| "postprocess_rows inputs i example_separator (row # rows) =
     bind_err (postprocess_row inputs i example_separator row) (\<lambda>r.
     bind_err (postprocess_rows inputs (Suc i) example_separator rows) (\<lambda>rs. Inr (r # rs)))"

text \<open>The parameter \<^verbatim>\<open>ref_delimiter\<close> is never read and is left out.\<close>

definition postprocess_model_outputs ::
  "string list \<Rightarrow> string list list \<Rightarrow> string \<Rightarrow> error + string list list" where
  "postprocess_model_outputs inputs outputs example_separator =
     postprocess_rows inputs 0 example_separator outputs"

section \<open>The random source and \<^verbatim>\<open>random.sample\<close>\<close>

text \<open>
  The process-wide generator is threaded through as an explicit value: a stream of raw
  draws. \<open>randbelow n\<close> consumes one draw and yields a number below \<open>n\<close> (for \<open>0 < n\<close>,
  the only case the sampler asks for).
\<close>

type_synonym rng = "nat stream"

definition randbelow :: "nat \<Rightarrow> rng \<Rightarrow> nat \<times> rng" where
  "randbelow n g = (shd g mod n, stl g)"

text \<open>
  Modelled from the spec: \<^verbatim>\<open>random.sample\<close> belongs to the Python standard library and
  is not part of the repository. The spec's contract is that it "samples \<open>count\<close> distinct exemplars
  uniformly at random without replacement from the pool" and "fails (raises a sampling
  error) if \<open>count > |pool|\<close>". The model is the library's selection loop over a copy of
  the population: \<open>m\<close> is the number of entries not selected so far, kept at the
  positions below \<open>m\<close>; the entry drawn is replaced by the last of them. The library
  raises its ValueError for a negative count as well.
\<close>

fun sample_pool :: "'a list \<Rightarrow> nat \<Rightarrow> nat \<Rightarrow> rng \<Rightarrow> 'a list \<times> rng" where
  "sample_pool pool m 0 g = ([], g)"
| "sample_pool pool m (Suc k) g =
     (let (j, g1) = randbelow m g;
          (rest, g2) = sample_pool (pool[j := pool ! (m - 1)]) (m - 1) k g1
      in (pool ! j # rest, g2))"

definition random_sample :: "'a list \<Rightarrow> int \<Rightarrow> rng \<Rightarrow> error + 'a list \<times> rng" where
  "random_sample population k g =
     (if 0 \<le> k \<and> k \<le> int (length population)
      then Inr (sample_pool population (length population) (nat k) g)
      else Inl ValueError)"

section \<open>RandomExampleSelector\<close>

text \<open>
  An exemplar is a dictionary from field names to values; a value is one text or a list
  of reference texts. Dictionaries are association lists in insertion order, read with
  \<^const>\<open>map_of\<close> and written with \<^const>\<open>AList.update\<close>.
\<close>

datatype field = Str string | Refs "string list"

type_synonym exemplar = "(string \<times> field) list"

record RandomExampleSelector =
  examples :: "exemplar list"
  few_shot_n :: int
  n_refs :: int

definition add_example :: "RandomExampleSelector \<Rightarrow> exemplar \<Rightarrow> RandomExampleSelector" where
  "add_example self example = self\<lparr>examples := examples self @ [example]\<rparr>"

text \<open>\<^verbatim>\<open>str(i)\<close> for a list position \<open>i\<close>.\<close>

fun str_of_nat :: "nat \<Rightarrow> string" where
  "str_of_nat n =
     (if n < 10 then [''0123456789'' ! n]
      else str_of_nat (n div 10) @ [''0123456789'' ! (n mod 10)])"

declare str_of_nat.simps [simp del]

text \<open>\<^verbatim>\<open>[f"{i}: {ref}" for i, ref in enumerate(simple_references)]\<close>\<close>

definition enumerate_references :: "string list \<Rightarrow> string list" where
  "enumerate_references simple_references =
     map (\<lambda>(i, ref). str_of_nat i @ '': '' @ ref) (enumerate 0 simple_references)"

text \<open>The body of the loop of \<^verbatim>\<open>flatten_references\<close>, for one exemplar \<open>ex\<close>.\<close>

definition flatten_reference ::
  "string \<Rightarrow> string \<Rightarrow> int \<Rightarrow> exemplar \<Rightarrow> rng \<Rightarrow> error + exemplar \<times> rng" where
  "flatten_reference src_key tgt_key refs_n ex g =
     (case map_of ex src_key of
        None \<Rightarrow> Inl KeyError
      | Some src \<Rightarrow>
          (case map_of ex tgt_key of
             None \<Rightarrow> Inl KeyError
           | Some (Refs refs) \<Rightarrow>
               bind_err (random_sample refs (min refs_n (int (length refs))) g)
                 (\<lambda>(simple_references, g1).
                    Inr (AList.update tgt_key
                           (Str (str_join '' ''
                              (if refs_n > 1 then enumerate_references simple_references
                               else simple_references)))
                           (AList.update src_key src []), g1))
           | Some (Str tgt) \<Rightarrow>
               Inr (AList.update tgt_key (Str tgt) (AList.update src_key src []), g)))"

fun flatten_references ::
  "exemplar list \<Rightarrow> string \<Rightarrow> string \<Rightarrow> int \<Rightarrow> rng \<Rightarrow> error + exemplar list \<times> rng" where
  "flatten_references [] src_key tgt_key refs_n g = Inr ([], g)"
| "flatten_references (ex # exs) src_key tgt_key refs_n g =
     bind_err (flatten_reference src_key tgt_key refs_n ex g) (\<lambda>(flat_ex, g1).
     bind_err (flatten_references exs src_key tgt_key refs_n g1) (\<lambda>(flat_examples, g2).
       Inr (flat_ex # flat_examples, g2)))"

definition select_examples ::
  "RandomExampleSelector \<Rightarrow> (string \<times> string) list \<Rightarrow> rng \<Rightarrow> error + exemplar list \<times> rng" where
  "select_examples self input_variables g =
     bind_err (random_sample (examples self) (few_shot_n self) g) (\<lambda>(sampled, g1).
       flatten_references sampled ''complex'' ''simple'' (n_refs self) g1)"

section \<open>The template library\<close>

text \<open>
  Modelled from the spec: \<^verbatim>\<open>FewShotPromptTemplate\<close> and its formatter belong to the
  langchain library and are not part of the repository. The spec calls them "the standard
  template-join algorithm": "join prefix, rendered exemplars, and the suffix (with the
  single \<^verbatim>\<open>{input}\<close> placeholder substituted by the current input text)", and requires
  that "at least one exemplar source (either a materialized list or a selector capable
  of producing one) must be supplied". The model follows the library where the spec is
  silent: the placeholder is substituted in the joined text, doubled braces stand for
  one brace, any other use of a brace is rejected, and so is a template that never
  uses \<^verbatim>\<open>{input}\<close>; a non-empty exemplar list together with a selector is rejected;
  empty pieces are left out of the join. Conversions and format specifications inside
  a placeholder are not modelled.
\<close>

function format_fields :: "string \<Rightarrow> string \<Rightarrow> error + string \<times> bool" where
  "format_fields [] v = Inr ([], False)"
| "format_fields (c # cs) v =
     (if c = CHR ''{'' then
        (if prefix ''{'' cs then
           bind_err (format_fields (drop 1 cs) v) (\<lambda>(out, used). Inr (CHR ''{'' # out, used))
         else if prefix ''input}'' cs then
           bind_err (format_fields (drop 6 cs) v) (\<lambda>(out, used). Inr (v @ out, True))
         else Inl FormatError)
      else if c = CHR ''}'' then
        (if prefix ''}'' cs then
           bind_err (format_fields (drop 1 cs) v) (\<lambda>(out, used). Inr (CHR ''}'' # out, used))
         else Inl FormatError)
      else bind_err (format_fields cs v) (\<lambda>(out, used). Inr (c # out, used)))"
  by pat_completeness auto
termination
  by (relation "measure (\<lambda>(s, v). length s)") auto

definition format_template :: "string \<Rightarrow> string \<Rightarrow> error + string" where
  "format_template template v =
     bind_err (format_fields template v) (\<lambda>(out, used).
       if used then Inr out else Inl FormatError)"

text \<open>
  The example template is used through its \<^verbatim>\<open>format\<close> method only, so it is modelled
  as that method: a function from an exemplar to its rendering.
\<close>

record FewShotPromptTemplate =
  template_examples :: "exemplar list option"
  template_example_selector :: "RandomExampleSelector option"
  template_example_prompt :: "exemplar \<Rightarrow> error + string"
  template_prefix :: string
  template_suffix :: string
  template_example_separator :: string

definition new_FewShotPromptTemplate ::
  "exemplar list option \<Rightarrow> RandomExampleSelector option \<Rightarrow> (exemplar \<Rightarrow> error + string) \<Rightarrow>
   string \<Rightarrow> string \<Rightarrow> string \<Rightarrow> error + FewShotPromptTemplate" where
  "new_FewShotPromptTemplate example_list example_selector example_prompt
       prompt_prefix prompt_suffix example_separator =
     (if example_list \<noteq> None \<and> example_list \<noteq> Some [] \<and> example_selector \<noteq> None
        then Inl ValidationError
      else if example_list = None \<and> example_selector = None
        then Inl ValidationError
      else if isl (format_template (prompt_prefix @ prompt_suffix) ''foo'')
        then Inl ValidationError
      else Inr \<lparr>template_examples = example_list,
                template_example_selector = example_selector,
                template_example_prompt = example_prompt,
                template_prefix = prompt_prefix,
                template_suffix = prompt_suffix,
                template_example_separator = example_separator\<rparr>)"

definition get_examples ::
  "FewShotPromptTemplate \<Rightarrow> (string \<times> string) list \<Rightarrow> rng \<Rightarrow> error + exemplar list \<times> rng" where
  "get_examples t kwargs g =
     (case template_examples t of
        Some example_list \<Rightarrow> Inr (example_list, g)
      | None \<Rightarrow>
          (case template_example_selector t of
             Some selector \<Rightarrow> select_examples selector kwargs g
           | None \<Rightarrow> Inl ValueError))"

fun format_examples :: "(exemplar \<Rightarrow> error + string) \<Rightarrow> exemplar list \<Rightarrow> error + string list" where
  "format_examples example_prompt [] = Inr []"
| "format_examples example_prompt (ex # exs) =
     bind_err (example_prompt ex) (\<lambda>r.
     bind_err (format_examples example_prompt exs) (\<lambda>rs. Inr (r # rs)))"

definition template_format :: "FewShotPromptTemplate \<Rightarrow> string \<Rightarrow> rng \<Rightarrow> error + string \<times> rng" where
  "template_format t i g =
     bind_err (get_examples t [(''input'', i)] g) (\<lambda>(example_list, g1).
     bind_err (format_examples (template_example_prompt t) example_list) (\<lambda>example_strings.
     bind_err (format_template
                 (str_join (template_example_separator t)
                    (filter (\<lambda>piece. piece \<noteq> [])
                       (template_prefix t # example_strings @ [template_suffix t]))) i)
       (\<lambda>fsp. Inr (fsp, g1))))"

section \<open>prepare\_prompted\_inputs\<close>

text \<open>
  \<open>few_shot_prompt\<close> is the template that the branch on \<open>prompt_format\<close> builds; with
  any other \<open>prompt_format\<close> the variable is unbound when the loop body reads it.
  \<open>few_shot_render\<close> builds it and fills it in with the input \<open>i\<close>.
\<close>

definition few_shot_prompt ::
  "exemplar list option \<Rightarrow> RandomExampleSelector option \<Rightarrow> string \<Rightarrow> string \<Rightarrow>
   (exemplar \<Rightarrow> error + string) \<Rightarrow> string \<Rightarrow> string \<Rightarrow> error + FewShotPromptTemplate" where
  "few_shot_prompt example_list example_selector prompt_prefix prompt_suffix example_prompt
       example_separator prompt_format =
     (if prompt_format = ''prefix_initial'' then
        new_FewShotPromptTemplate
          (if example_selector = None then None else example_list)
          example_selector example_prompt prompt_prefix prompt_suffix example_separator
      else if prompt_format = ''prefix_every'' then
        new_FewShotPromptTemplate
          (if example_selector = None then None else example_list)
          example_selector example_prompt prompt_prefix prompt_suffix
          (example_separator @ prompt_prefix @ example_separator)
      else Inl UnboundLocalError)"

definition few_shot_render ::
  "string \<Rightarrow> exemplar list option \<Rightarrow> RandomExampleSelector option \<Rightarrow> string \<Rightarrow> string \<Rightarrow>
   (exemplar \<Rightarrow> error + string) \<Rightarrow> string \<Rightarrow> string \<Rightarrow> rng \<Rightarrow> error + string \<times> rng" where
  "few_shot_render i example_list example_selector prompt_prefix prompt_suffix example_prompt
       example_separator prompt_format g =
     bind_err (few_shot_prompt example_list example_selector prompt_prefix prompt_suffix
                 example_prompt example_separator prompt_format)
       (\<lambda>t. template_format t i g)"

text \<open>The loop over the inputs; the random source passes from one input to the next.\<close>

fun prompt_inputs ::
  "string list \<Rightarrow> exemplar list option \<Rightarrow> RandomExampleSelector option \<Rightarrow> string \<Rightarrow> string \<Rightarrow>
   (exemplar \<Rightarrow> error + string) \<Rightarrow> string \<Rightarrow> string \<Rightarrow> rng \<Rightarrow> error + string list \<times> rng" where
  "prompt_inputs [] example_list example_selector prompt_prefix prompt_suffix example_prompt
       example_separator prompt_format g = Inr ([], g)"
| "prompt_inputs (i # inputs) example_list example_selector prompt_prefix prompt_suffix
       example_prompt example_separator prompt_format g =
     bind_err (few_shot_render i example_list example_selector prompt_prefix prompt_suffix
                 example_prompt example_separator prompt_format g) (\<lambda>(fsp, g1).
     bind_err (prompt_inputs inputs example_list example_selector prompt_prefix prompt_suffix
                 example_prompt example_separator prompt_format g1) (\<lambda>(prompted_inputs, g2).
       Inr (str_strip (str_replace (prompt_prefix @ example_separator @ prompt_prefix)
                         prompt_prefix fsp) # prompted_inputs, g2)))"

definition prepare_prompted_inputs ::
  "string list \<Rightarrow> exemplar list option \<Rightarrow> RandomExampleSelector option \<Rightarrow> string \<Rightarrow> string \<Rightarrow>
   (exemplar \<Rightarrow> error + string) \<Rightarrow> string \<Rightarrow> string \<Rightarrow> rng \<Rightarrow> error + string list \<times> rng" where
  "prepare_prompted_inputs inputs example_list example_selector prompt_prefix prompt_suffix
       example_prompt example_separator prompt_format g =
     (if example_list = None \<and> example_selector = None then Inl RuntimeError
      else prompt_inputs inputs example_list example_selector prompt_prefix prompt_suffix
             example_prompt example_separator prompt_format g)"

text \<open>
  An example template of the shape used in the repository,
  \<^verbatim>\<open>"Complex: {complex}\nSimple: {simple}"\<close>: text, the source field, text, the target
  field, both fields being texts.
\<close>

definition example_template :: "string \<Rightarrow> string \<Rightarrow> exemplar \<Rightarrow> error + string" where
  "example_template before between ex =
     (case (map_of ex ''complex'', map_of ex ''simple'') of
        (Some (Str src), Some (Str tgt)) \<Rightarrow> Inr (before @ src @ between @ tgt)
      | _ \<Rightarrow> Inl KeyError)"

section \<open>The echo removal as the specification words it\<close>

text \<open>
  For comparison with \<open>echo_removal\<close> only, and written from the specification, not
  from the code: "remove the first (and only the first) literal occurrence of the full
  Rendered Prompt substring from the candidate, then trim whitespace".
\<close>

fun remove_first :: "string \<Rightarrow> string \<Rightarrow> string" where
  "remove_first old [] = []"
| "remove_first old (c # cs) =
     (if prefix old (c # cs) then drop (length old) (c # cs) else c # remove_first old cs)"

definition echo_removal_first_only :: "string \<Rightarrow> string \<Rightarrow> string" where
  "echo_removal_first_only input out_seq = str_strip (remove_first input out_seq)"

section \<open>Auxiliary facts\<close>

lemma bind_err_simps [simp]:
  "bind_err (Inl e) f = Inl e"
  "bind_err (Inr x) f = f x"
  by (simp_all add: bind_err_def)

lemmas postprocess_eval =
  postprocess_model_outputs_def postprocess_candidate_def echo_removal_def
  strip_reference_index_def str_split_def first_item_def str_strip_def is_space_def
  is_digit_def re_sub_newline_def newline_def backslash_def match_label_def

lemma str_replace_self: "str_replace p [] p = []"
  by (cases p) simp_all

lemma prefix_in_front:
  assumes "old \<noteq> []" "a \<noteq> []" "prefix old (a @ old @ b)"
  shows "prefix old (a @ butlast old)"
proof -
  have "a @ old @ b = (a @ butlast old) @ (last old # b)"
    using assms(1) by simp
  with assms(3) have "prefix old ((a @ butlast old) @ (last old # b))" by simp
  moreover have "length old \<le> length (a @ butlast old)"
    using assms(1,2) by (cases a) simp_all
  ultimately show ?thesis
    by (metis prefix_length_prefix prefixI) 
qed

lemma str_replace_leftmost:
  assumes "old \<noteq> []" "\<not> sublist old (a @ butlast old)"
  shows "str_replace old new (a @ old @ b) = a @ new @ str_replace old new b"
  using assms(2)
proof (induction a)
  case Nil
  from assms(1) obtain c cs where old: "old = c # cs" by (cases old) auto
  have "str_replace old new (old @ b) = new @ str_replace old new (drop (length old) (old @ b))"
    unfolding old by simp
  then show ?case by simp
next
  case (Cons x a)
  have np: "\<not> prefix old ((x # a) @ old @ b)"
    using prefix_in_front [OF assms(1), of "x # a" b] Cons.prems by auto
  have ns: "\<not> sublist old (a @ butlast old)"
    using Cons.prems by (simp add: sublist_Cons_right)
  show ?case using np Cons.IH [OF ns] assms(1) by simp
qed

lemma str_replace_absent:
  assumes "old \<noteq> []" "\<not> sublist old s"
  shows "str_replace old new s = s"
  using assms(2)
proof (induction s)
  case Nil
  then show ?case using assms(1) by simp
next
  case (Cons c s)
  then show ?case using assms(1) by (simp add: sublist_Cons_right)
qed

lemma str_replace_every:
  assumes "old \<noteq> []" "\<forall>s\<in>set segs. \<not> sublist old (s @ butlast old)" "\<not> sublist old rest"
  shows "str_replace old new (concat (map (\<lambda>s. s @ old) segs) @ rest)
           = concat (map (\<lambda>s. s @ new) segs) @ rest"
  using assms(2)
proof (induction segs)
  case Nil
  then show ?case using str_replace_absent [OF assms(1,3)] by simp
next
  case (Cons s segs)
  have "str_replace old new (s @ old @ (concat (map (\<lambda>s. s @ old) segs) @ rest))
          = s @ new @ str_replace old new (concat (map (\<lambda>s. s @ old) segs) @ rest)"
    using Cons.prems by (intro str_replace_leftmost [OF assms(1)]) simp
  then show ?case using Cons by simp
qed

lemma sample_pool_indices:
  "k \<le> m \<Longrightarrow> m \<le> length pool \<Longrightarrow>
     \<exists>js. length js = k \<and> distinct js \<and> (\<forall>j\<in>set js. j < m)
          \<and> fst (sample_pool pool m k g) = map ((!) pool) js"
proof (induction k arbitrary: pool m g)
  case 0
  then show ?case by simp
next
  case (Suc k)
  define j where "j = shd g mod m"
  define pool' where "pool' = pool[j := pool ! (m - 1)]"
  define \<sigma> where "\<sigma> = (\<lambda>i. if i = j then m - 1 else i)"
  from Suc.prems have m: "0 < m" by simp
  then have j: "j < m" by (simp add: j_def)
  have "k \<le> m - 1" "m - 1 \<le> length pool'"
    using Suc.prems by (simp_all add: pool'_def)
  from Suc.IH [OF this, of "stl g"] obtain js where
    js: "length js = k" "distinct js" "\<forall>i\<in>set js. i < m - 1"
        "fst (sample_pool pool' (m - 1) k (stl g)) = map ((!) pool') js"
    by blast
  have nth: "pool' ! i = pool ! \<sigma> i" if "i < m - 1" for i
    using that j Suc.prems(2) by (simp add: pool'_def \<sigma>_def nth_list_update)
  have inj: "inj_on \<sigma> (set js)"
    using js(3) by (auto simp: inj_on_def \<sigma>_def)
  have notin: "j \<notin> \<sigma> ` set js"
    using js(3) by (auto simp: \<sigma>_def)
  have bound: "\<forall>i\<in>set js. \<sigma> i < m"
    using js(3) m by (auto simp: \<sigma>_def)
  have res: "fst (sample_pool pool m (Suc k) g) = pool ! j # map ((!) pool') js"
    using js(4) by (auto simp: randbelow_def j_def pool'_def split: prod.splits)
  have "map ((!) pool') js = map ((!) pool) (map \<sigma> js)"
    using nth js(3) by simp
  with res have "fst (sample_pool pool m (Suc k) g) = map ((!) pool) (j # map \<sigma> js)"
    by simp
  moreover have "length (j # map \<sigma> js) = Suc k" using js(1) by simp
  moreover have "distinct (j # map \<sigma> js)"
    using js(2) inj notin by (simp add: distinct_map)
  moreover have "\<forall>i\<in>set (j # map \<sigma> js). i < m" using j bound by simp
  ultimately show ?case by blast
qed

lemma random_sample_indices:
  assumes "0 \<le> k" "k \<le> int (length xs)"
  shows "\<exists>js g1. length js = nat k \<and> distinct js \<and> (\<forall>j\<in>set js. j < length xs)
           \<and> random_sample xs k g = Inr (map ((!) xs) js, g1)"
proof -
  from assms have "nat k \<le> length xs" by simp
  from sample_pool_indices [OF this order_refl, of g] obtain js where
    "length js = nat k" "distinct js" "\<forall>j\<in>set js. j < length xs"
    "fst (sample_pool xs (length xs) (nat k) g) = map ((!) xs) js"
    by blast
  then show ?thesis
    using assms by (cases "sample_pool xs (length xs) (nat k) g") (auto simp: random_sample_def)
qed

lemma random_sample_too_many:
  "int (length xs) < k \<Longrightarrow> random_sample xs k g = Inl ValueError"
  by (simp add: random_sample_def)

lemma flatten_reference_ok:
  assumes "map_of ex src_key \<noteq> None" "map_of ex tgt_key \<noteq> None" "0 \<le> refs_n"
  shows "\<exists>flat g1. flatten_reference src_key tgt_key refs_n ex g = Inr (flat, g1)
           \<and> (src_key \<noteq> tgt_key \<longrightarrow> map_of flat src_key = map_of ex src_key)"
proof -
  from assms obtain src tgt where
    st: "map_of ex src_key = Some src" "map_of ex tgt_key = Some tgt" by auto
  show ?thesis
  proof (cases tgt)
    case (Str t)
    then show ?thesis using st by (auto simp: flatten_reference_def update_conv')
  next
    case (Refs refs)
    have "0 \<le> min refs_n (int (length refs))" "min refs_n (int (length refs)) \<le> int (length refs)"
      using assms(3) by simp_all
    from random_sample_indices [OF this, of g] obtain js g1 where
      "random_sample refs (min refs_n (int (length refs))) g = Inr (map ((!) refs) js, g1)"
      by blast
    then show ?thesis using st Refs by (auto simp: flatten_reference_def update_conv')
  qed
qed

lemma flatten_references_ok:
  assumes "\<forall>ex\<in>set exs. map_of ex src_key \<noteq> None \<and> map_of ex tgt_key \<noteq> None" "0 \<le> refs_n"
  shows "\<exists>flats g1. flatten_references exs src_key tgt_key refs_n g = Inr (flats, g1)
           \<and> length flats = length exs
           \<and> (src_key \<noteq> tgt_key \<longrightarrow>
                (\<forall>i<length exs. map_of (flats ! i) src_key = map_of (exs ! i) src_key))"
  using assms(1)
proof (induction exs arbitrary: g)
  case Nil
  then show ?case by simp
next
  case (Cons ex exs)
  from Cons.prems have "map_of ex src_key \<noteq> None" "map_of ex tgt_key \<noteq> None" by simp_all
  from flatten_reference_ok [OF this assms(2), of g] obtain flat g1 where
    f: "flatten_reference src_key tgt_key refs_n ex g = Inr (flat, g1)"
       "src_key \<noteq> tgt_key \<longrightarrow> map_of flat src_key = map_of ex src_key"
    by blast
  from Cons.IH [of g1] Cons.prems obtain flats g2 where
    fs: "flatten_references exs src_key tgt_key refs_n g1 = Inr (flats, g2)"
        "length flats = length exs"
        "src_key \<noteq> tgt_key \<longrightarrow>
           (\<forall>i<length exs. map_of (flats ! i) src_key = map_of (exs ! i) src_key)"
    by auto
  have "flatten_references (ex # exs) src_key tgt_key refs_n g = Inr (flat # flats, g2)"
    using f(1) fs(1) by simp
  moreover have "length (flat # flats) = length (ex # exs)" using fs(2) by simp
  moreover have "src_key \<noteq> tgt_key \<longrightarrow>
      (\<forall>i<length (ex # exs). map_of ((flat # flats) ! i) src_key = map_of ((ex # exs) ! i) src_key)"
    using f(2) fs(3) by (auto simp: nth_Cons split: nat.splits)
  ultimately show ?case by blast
qed

lemma enumerate_references_nth:
  "enumerate_references xs = map (\<lambda>i. str_of_nat i @ '': '' @ xs ! i) [0..<length xs]"
  unfolding enumerate_references_def enumerate_eq_zip
  by (rule nth_equalityI) simp_all

lemma str_of_nat_digits:
  "str_of_nat 0 = ''0''" "str_of_nat (Suc 0) = ''1''" "str_of_nat 2 = ''2''"
  by (simp_all add: str_of_nat.simps)

lemmas assemble_eval =
  few_shot_render_def few_shot_prompt_def new_FewShotPromptTemplate_def template_format_def
  get_examples_def format_template_def select_examples_def random_sample_def randbelow_def
  flatten_reference_def example_template_def newline_def eval_nat_numeral

lemma few_shot_render_source:
  "few_shot_render i example_list example_selector prompt_prefix prompt_suffix example_prompt
     example_separator prompt_format g = Inr r \<Longrightarrow>
   \<not> (example_list = None \<and> example_selector = None)"
  by (auto simp: few_shot_render_def few_shot_prompt_def new_FewShotPromptTemplate_def
      split: if_splits)

lemma split_scan_nonempty: "split_scan sep seg s \<noteq> []"
  by (induction sep seg s rule: split_scan.induct) auto

lemma stripped_segments:
  "[str_strip x. x \<leftarrow> xs, str_strip x \<noteq> []]
     = map str_strip (filter (\<lambda>x. str_strip x \<noteq> []) xs)"
  by (induction xs) simp_all

lemma strip_reference_index_error:
  "strip_reference_index s = Inl IndexError
     \<longleftrightarrow> (\<forall>x\<in>set (re_split_index [] s). str_strip x = [])"
proof -
  have "strip_reference_index s = Inl IndexError
          \<longleftrightarrow> filter (\<lambda>x. str_strip x \<noteq> []) (re_split_index [] s) = []"
    unfolding strip_reference_index_def stripped_segments
    by (cases "filter (\<lambda>x. str_strip x \<noteq> []) (re_split_index [] s)")
       (simp_all add: first_item_def)
  then show ?thesis by (simp add: filter_empty_conv)
qed

lemma strip_reference_index_cases:
  "strip_reference_index s = Inl IndexError \<or> (\<exists>h. strip_reference_index s = Inr h)"
  by (simp add: strip_reference_index_def first_item_def split: list.splits)

lemma postprocess_candidate_error:
  assumes "sep \<noteq> []"
  shows "postprocess_candidate p sep c = Inl IndexError
     \<longleftrightarrow> (\<forall>x\<in>set (re_split_index []
                      (re_sub_newline (hd (split_scan sep [] (echo_removal p c))))).
            str_strip x = [])"
proof -
  obtain h t where ht: "split_scan sep [] (echo_removal p c) = h # t"
    using split_scan_nonempty by (cases "split_scan sep [] (echo_removal p c)") auto
  have "postprocess_candidate p sep c = Inl IndexError
          \<longleftrightarrow> strip_reference_index (re_sub_newline h) = Inl IndexError"
    using assms ht strip_reference_index_cases [of "re_sub_newline h"]
    by (auto simp: postprocess_candidate_def str_split_def first_item_def)
  then show ?thesis using ht by (simp add: strip_reference_index_error)
qed

section \<open>The postprocessor on the example of the specification\<close>

text \<open>
  C1, as stated: the prompt \<^verbatim>\<open>P1\<close>, the candidate
  \<^verbatim>\<open>P1 Simple: Hello world.\n\nComplex: next\<close> and the separator \<^verbatim>\<open>\n\n\<close> give
  \<^verbatim>\<open>Hello world.\<close>. The code does not return that, whether \<^verbatim>\<open>\n\n\<close> is read as two
  newline characters in both places, as the four characters backslash, n, backslash, n
  in both places, or as newlines in the candidate and the four characters as separator.
\<close>

theorem postprocess_example_counterexample:
  "postprocess_model_outputs [''P1'']
     [[''P1 Simple: Hello world.'' @ [newline, newline] @ ''Complex: next'']]
     [newline, newline] \<noteq> Inr [[''Hello world.'']]
   \<and> postprocess_model_outputs [''P1'']
     [[''P1 Simple: Hello world.'' @ [backslash, CHR ''n'', backslash, CHR ''n'']
         @ ''Complex: next'']]
     [backslash, CHR ''n'', backslash, CHR ''n''] \<noteq> Inr [[''Hello world.'']]
   \<and> postprocess_model_outputs [''P1'']
     [[''P1 Simple: Hello world.'' @ [newline, newline] @ ''Complex: next'']]
     [backslash, CHR ''n'', backslash, CHR ''n''] \<noteq> Inr [[''Hello world.'']]"
  by (simp add: postprocess_eval)

text \<open>
  C1, amended: on that input the postprocessor returns \<^verbatim>\<open>Simple: Hello world.\<close>. The
  prompt echo is removed, the segment after the first separator is dropped and the
  result is trimmed; the label stays, because the trim after the echo removal has taken
  the whitespace that the label pattern needs in front of it. A label with whitespace
  on both sides is removed together with that whitespace.
\<close>

theorem postprocess_example:
  "postprocess_model_outputs [''P1'']
     [[''P1 Simple: Hello world.'' @ [newline, newline] @ ''Complex: next'']]
     [newline, newline] = Inr [[''Simple: Hello world.'']]
   \<and> postprocess_model_outputs [''P1'']
     [[''P1 Simple: Hello world.'' @ [backslash, CHR ''n'', backslash, CHR ''n'']
         @ ''Complex: next'']]
     [backslash, CHR ''n'', backslash, CHR ''n''] = Inr [[''Simple: Hello world.'']]
   \<and> postprocess_model_outputs [''P1'']
     [[''P1 Then Simple: Hello world.'' @ [newline, newline] @ ''Complex: next'']]
     [newline, newline] = Inr [[''ThenHello world.'']]"
  by (simp add: postprocess_eval)

section \<open>Candidates without a hypothesis\<close>

text \<open>
  C8: postprocessing is not total. A candidate equal to its prompt is empty after the
  echo removal, and the candidate \<^verbatim>\<open>0:\<close> (or any text of digit-colon tokens and
  whitespace) leaves only blank segments; the reference-index step then takes the first
  element of an empty list, and the call ends with IndexError. With a non-empty
  separator this is the only way to that error: it is raised exactly when every segment
  of the normalized text is blank.
\<close>

theorem postprocess_not_total:
  "(sep \<noteq> [] \<longrightarrow> postprocess_model_outputs [p] [[p]] sep = Inl IndexError)
   \<and> postprocess_model_outputs [''P1''] [[''0:'']] [newline, newline] = Inl IndexError
   \<and> postprocess_model_outputs [''P1''] [[''0: 1:'' @ [newline] @ ''2:'']] [newline, newline]
       = Inl IndexError
   \<and> (sep \<noteq> [] \<longrightarrow>
        (postprocess_model_outputs [p] [[c]] sep = Inl IndexError
           \<longleftrightarrow> (\<forall>x\<in>set (re_split_index []
                          (re_sub_newline (hd (split_scan sep [] (echo_removal p c))))).
                  str_strip x = [])))"
proof -
  have a: "sep \<noteq> [] \<longrightarrow> postprocess_model_outputs [p] [[p]] sep = Inl IndexError"
    by (simp add: postprocess_eval str_replace_self)
  have b: "postprocess_model_outputs [''P1''] [[''0:'']] [newline, newline] = Inl IndexError"
    by (simp add: postprocess_eval)
  have c: "postprocess_model_outputs [''P1''] [[''0: 1:'' @ [newline] @ ''2:'']]
             [newline, newline] = Inl IndexError"
    by (simp add: postprocess_eval)
  have "postprocess_model_outputs [p] [[c]] sep = Inl IndexError
          \<longleftrightarrow> postprocess_candidate p sep c = Inl IndexError"
    by (cases "postprocess_candidate p sep c") (simp_all add: postprocess_model_outputs_def)
  then have d: "sep \<noteq> [] \<longrightarrow>
        (postprocess_model_outputs [p] [[c]] sep = Inl IndexError
           \<longleftrightarrow> (\<forall>x\<in>set (re_split_index []
                          (re_sub_newline (hd (split_scan sep [] (echo_removal p c))))).
                  str_strip x = []))"
    using postprocess_candidate_error [of sep p c] by simp
  from a b c d show ?thesis by (intro conjI)
qed

theorem postprocess_not_total_witness:
  "[newline, newline] \<noteq> []
   \<and> postprocess_model_outputs [''P1''] [[''P1'']] [newline, newline] = Inl IndexError
   \<and> postprocess_model_outputs [''P1''] [[''P1 1: 2:'']] [newline, newline] = Inl IndexError"
proof -
  have h: "[newline, newline] \<noteq> []" by simp
  from postprocess_not_total [of "[newline, newline]" "''P1''" "''P1''"] h
  have a: "postprocess_model_outputs [''P1''] [[''P1'']] [newline, newline] = Inl IndexError"
    by blast
  from postprocess_not_total [of "[newline, newline]" "''P1''" "''P1 1: 2:''"] h
  have "postprocess_model_outputs [''P1''] [[''P1 1: 2:'']] [newline, newline] = Inl IndexError
          \<longleftrightarrow> (\<forall>x\<in>set (re_split_index []
                          (re_sub_newline (hd (split_scan [newline, newline] []
                             (echo_removal ''P1'' ''P1 1: 2:''))))).
                  str_strip x = [])"
    by blast
  then have b: "postprocess_model_outputs [''P1''] [[''P1 1: 2:'']] [newline, newline]
                  = Inl IndexError"
    by (simp add: echo_removal_def str_strip_def is_space_def is_digit_def re_sub_newline_def
        newline_def)
  from h a b show ?thesis by (intro conjI)
qed

section \<open>Selection and the input context\<close>

text \<open>
  C10: with the same selector and the same random state, \<open>select_examples\<close> returns the
  same result for any two \<open>input_variables\<close>: the argument is never read.
\<close>

theorem select_examples_ignores_input:
  "select_examples self input_variables g = select_examples self other_input_variables g"
  by (simp add: select_examples_def)

section \<open>Sampling exemplars\<close>

text \<open>
  C5: for every pool and every count \<open>k\<close> (the selector's \<open>few_shot_n\<close>), if
  \<open>0 \<le> k \<le> |pool|\<close> the selector draws the exemplars at \<open>k\<close> distinct positions \<open>js\<close>
  of the pool and returns their flattenings, which are \<open>k\<close> flattened exemplars, the
  \<open>i\<close>-th with the source of the pool exemplar at position \<open>js ! i\<close>, as soon as every
  exemplar of the pool has both fields and \<open>n_refs\<close> is not negative; if \<open>k > |pool|\<close>
  the call fails with the sampler's ValueError.
\<close>

theorem select_examples_sample:
  "(0 \<le> few_shot_n self \<and> few_shot_n self \<le> int (length (examples self)) \<longrightarrow>
      (\<exists>js g1. length js = nat (few_shot_n self) \<and> distinct js
         \<and> (\<forall>j\<in>set js. j < length (examples self))
         \<and> select_examples self input_variables g
             = flatten_references (map ((!) (examples self)) js) ''complex'' ''simple''
                 (n_refs self) g1
         \<and> (0 \<le> n_refs self
              \<and> (\<forall>ex\<in>set (examples self).
                    map_of ex ''complex'' \<noteq> None \<and> map_of ex ''simple'' \<noteq> None) \<longrightarrow>
             (\<exists>flats g2. select_examples self input_variables g = Inr (flats, g2)
                \<and> length flats = nat (few_shot_n self)
                \<and> (\<forall>i<length js. map_of (flats ! i) ''complex''
                       = map_of (examples self ! (js ! i)) ''complex'')))))
   \<and> (int (length (examples self)) < few_shot_n self \<longrightarrow>
        select_examples self input_variables g = Inl ValueError)"
proof (intro conjI impI)
  assume k: "0 \<le> few_shot_n self \<and> few_shot_n self \<le> int (length (examples self))"
  then obtain js g1 where
    js: "length js = nat (few_shot_n self)" "distinct js" "\<forall>j\<in>set js. j < length (examples self)"
        "random_sample (examples self) (few_shot_n self) g = Inr (map ((!) (examples self)) js, g1)"
    using random_sample_indices [of "few_shot_n self" "examples self" g] by blast
  let ?sampled = "map ((!) (examples self)) js"
  have sel: "select_examples self input_variables g
               = flatten_references ?sampled ''complex'' ''simple'' (n_refs self) g1"
    using js(4) by (simp add: select_examples_def)
  have wf: "\<exists>flats g2. select_examples self input_variables g = Inr (flats, g2)
                \<and> length flats = nat (few_shot_n self)
                \<and> (\<forall>i<length js. map_of (flats ! i) ''complex''
                       = map_of (examples self ! (js ! i)) ''complex'')"
    if n: "0 \<le> n_refs self"
      and a: "\<forall>ex\<in>set (examples self). map_of ex ''complex'' \<noteq> None \<and> map_of ex ''simple'' \<noteq> None"
  proof -
    have "\<forall>ex\<in>set ?sampled. map_of ex ''complex'' \<noteq> None \<and> map_of ex ''simple'' \<noteq> None"
      using a js(3) by simp
    from flatten_references_ok [OF this n, of g1] obtain flats g2 where
      "flatten_references ?sampled ''complex'' ''simple'' (n_refs self) g1 = Inr (flats, g2)"
      "length flats = length ?sampled"
      "\<forall>i<length ?sampled. map_of (flats ! i) ''complex'' = map_of (?sampled ! i) ''complex''"
      by auto
    then show ?thesis using sel js(1) by auto
  qed
  show "\<exists>js g1. length js = nat (few_shot_n self) \<and> distinct js
         \<and> (\<forall>j\<in>set js. j < length (examples self))
         \<and> select_examples self input_variables g
             = flatten_references (map ((!) (examples self)) js) ''complex'' ''simple''
                 (n_refs self) g1
         \<and> (0 \<le> n_refs self
              \<and> (\<forall>ex\<in>set (examples self).
                    map_of ex ''complex'' \<noteq> None \<and> map_of ex ''simple'' \<noteq> None) \<longrightarrow>
             (\<exists>flats g2. select_examples self input_variables g = Inr (flats, g2)
                \<and> length flats = nat (few_shot_n self)
                \<and> (\<forall>i<length js. map_of (flats ! i) ''complex''
                       = map_of (examples self ! (js ! i)) ''complex'')))"
    using js(1,2,3) sel wf by blast
next
  assume "int (length (examples self)) < few_shot_n self"
  then show "select_examples self input_variables g = Inl ValueError"
    by (simp add: select_examples_def random_sample_too_many)
qed

theorem select_examples_sample_witness:
  "(0::int) \<le> 2
   \<and> (2::int) \<le> int (length [[(''complex'', Str ''a''), (''simple'', Str ''b'')],
                                [(''complex'', Str ''c''), (''simple'', Str ''d'')]])
   \<and> (\<exists>js flats g2. length js = 2 \<and> distinct js \<and> (\<forall>j\<in>set js. j < (2::nat))
        \<and> select_examples
              \<lparr>examples = [[(''complex'', Str ''a''), (''simple'', Str ''b'')],
                           [(''complex'', Str ''c''), (''simple'', Str ''d'')]],
               few_shot_n = 2, n_refs = 1\<rparr> [(''input'', ''X'')] (sconst 0)
            = Inr (flats, g2)
        \<and> length flats = 2)
   \<and> int (length [[(''complex'', Str ''a''), (''simple'', Str ''b'')]]) < 2
   \<and> select_examples
        \<lparr>examples = [[(''complex'', Str ''a''), (''simple'', Str ''b'')]],
         few_shot_n = 2, n_refs = 1\<rparr> [(''input'', ''X'')] (sconst 0) = Inl ValueError"
proof -
  let ?P = "[[(''complex'', Str ''a''), (''simple'', Str ''b'')],
             [(''complex'', Str ''c''), (''simple'', Str ''d'')]]"
  let ?S = "\<lparr>examples = ?P, few_shot_n = 2, n_refs = 1\<rparr>"
  let ?T = "\<lparr>examples = [[(''complex'', Str ''a''), (''simple'', Str ''b'')]],
             few_shot_n = 2, n_refs = 1\<rparr>"
  have h1: "0 \<le> few_shot_n ?S \<and> few_shot_n ?S \<le> int (length (examples ?S))" by simp
  have h2: "0 \<le> n_refs ?S \<and> (\<forall>ex\<in>set (examples ?S).
              map_of ex ''complex'' \<noteq> None \<and> map_of ex ''simple'' \<noteq> None)" by simp
  have h3: "int (length (examples ?T)) < few_shot_n ?T" by simp
  from select_examples_sample [of ?S "[(''input'', ''X'')]" "sconst 0"] h1 h2
  obtain js flats g2 where
    "length js = nat (few_shot_n ?S)" "distinct js" "\<forall>j\<in>set js. j < length (examples ?S)"
    "select_examples ?S [(''input'', ''X'')] (sconst 0) = Inr (flats, g2)"
    "length flats = nat (few_shot_n ?S)"
    by blast
  then have a: "\<exists>js flats g2. length js = 2 \<and> distinct js \<and> (\<forall>j\<in>set js. j < (2::nat))
        \<and> select_examples ?S [(''input'', ''X'')] (sconst 0) = Inr (flats, g2)
        \<and> length flats = 2"
    by (auto simp: numeral_2_eq_2)
  from select_examples_sample [of ?T "[(''input'', ''X'')]" "sconst 0"] h3
  have b: "select_examples ?T [(''input'', ''X'')] (sconst 0) = Inl ValueError" by blast
  from a b show ?thesis by simp
qed

section \<open>Flattening references\<close>

text \<open>
  C6: for an exemplar whose target is a list \<open>refs\<close> of references and \<open>n_refs > 1\<close>,
  flattening draws \<open>min(n_refs, len(refs))\<close> references at distinct positions \<open>js\<close>,
  puts the zero-based index \<open>i\<close>, a colon and a space in front of the \<open>i\<close>-th of
  them and joins them with single spaces into the one target text. With ten references
  and \<open>n_refs = 3\<close> the target has exactly the three segments \<^verbatim>\<open>0: \<close>, \<^verbatim>\<open>1: \<close>,
  \<^verbatim>\<open>2: \<close>; with two references and \<open>n_refs = 5\<close> it has exactly two.
\<close>

theorem flatten_multi_reference:
  assumes "map_of ex src_key = Some src" "map_of ex tgt_key = Some (Refs refs)" "1 < refs_n"
  shows "\<exists>js g1 target.
           length js = min (nat refs_n) (length refs) \<and> distinct js
         \<and> (\<forall>j\<in>set js. j < length refs)
         \<and> flatten_references [ex] src_key tgt_key refs_n g
             = Inr ([AList.update tgt_key (Str target) [(src_key, src)]], g1)
         \<and> target = str_join '' ''
                      (map (\<lambda>i. str_of_nat i @ '': '' @ refs ! (js ! i)) [0..<length js])
         \<and> (length refs = 10 \<and> refs_n = 3 \<longrightarrow>
              target = ''0: '' @ refs ! (js ! 0) @ '' 1: '' @ refs ! (js ! 1)
                         @ '' 2: '' @ refs ! (js ! 2))
         \<and> (length refs = 2 \<and> refs_n = 5 \<longrightarrow>
              target = ''0: '' @ refs ! (js ! 0) @ '' 1: '' @ refs ! (js ! 1))"
proof -
  let ?k = "min refs_n (int (length refs))"
  have "0 \<le> ?k" "?k \<le> int (length refs)" using assms(3) by simp_all
  from random_sample_indices [OF this, of g] obtain js g1 where
    js: "length js = nat ?k" "distinct js" "\<forall>j\<in>set js. j < length refs"
        "random_sample refs ?k g = Inr (map ((!) refs) js, g1)"
    by blast
  define target where
    "target = str_join '' '' (map (\<lambda>i. str_of_nat i @ '': '' @ refs ! (js ! i)) [0..<length js])"
  have len: "length js = min (nat refs_n) (length refs)"
    using js(1) assms(3) by (simp add: min_def)
  have enum: "enumerate_references (map ((!) refs) js)
                = map (\<lambda>i. str_of_nat i @ '': '' @ refs ! (js ! i)) [0..<length js]"
    by (simp add: enumerate_references_nth)
  have res: "flatten_references [ex] src_key tgt_key refs_n g
               = Inr ([AList.update tgt_key (Str target) [(src_key, src)]], g1)"
    using assms js(4) enum by (simp add: flatten_reference_def target_def)
  have three: "target = ''0: '' @ refs ! (js ! 0) @ '' 1: '' @ refs ! (js ! 1)
                         @ '' 2: '' @ refs ! (js ! 2)"
    if "length refs = 10 \<and> refs_n = 3"
  proof -
    from that len have "length js = 3" by simp
    then have "[0..<length js] = [0, 1, 2]" by (simp add: upt_rec)
    then show ?thesis by (simp add: target_def str_of_nat_digits)
  qed
  have two: "target = ''0: '' @ refs ! (js ! 0) @ '' 1: '' @ refs ! (js ! 1)"
    if "length refs = 2 \<and> refs_n = 5"
  proof -
    from that len have "length js = 2" by simp
    then have "[0..<length js] = [0, 1]" by (simp add: upt_rec)
    then show ?thesis by (simp add: target_def str_of_nat_digits)
  qed
  show ?thesis using len js(2,3) res target_def three two by blast
qed

theorem flatten_multi_reference_witness:
  "map_of [(''complex'', Str ''c''), (''simple'', Refs [''r0'', ''r1''])] ''complex'' = Some (Str ''c'')
   \<and> map_of [(''complex'', Str ''c''), (''simple'', Refs [''r0'', ''r1''])] ''simple''
       = Some (Refs [''r0'', ''r1''])
   \<and> (1::int) < 5
   \<and> (\<exists>js g1. length js = 2 \<and> distinct js \<and> (\<forall>j\<in>set js. j < 2)
        \<and> flatten_references [[(''complex'', Str ''c''), (''simple'', Refs [''r0'', ''r1''])]]
              ''complex'' ''simple'' 5 (sconst 0)
            = Inr ([[(''complex'', Str ''c''),
                     (''simple'', Str (''0: '' @ [''r0'', ''r1''] ! (js ! 0)
                                        @ '' 1: '' @ [''r0'', ''r1''] ! (js ! 1)))]], g1))"
proof -
  let ?ex = "[(''complex'', Str ''c''), (''simple'', Refs [''r0'', ''r1''])]"
  have h1: "map_of ?ex ''complex'' = Some (Str ''c'')" by simp
  have h2: "map_of ?ex ''simple'' = Some (Refs [''r0'', ''r1''])" by simp
  have h3: "(1::int) < 5" by simp
  from flatten_multi_reference [OF h1 h2 h3, of "sconst 0"]
  obtain js g1 target where
    a: "length js = min (nat 5) (length [''r0'', ''r1''])" and b: "distinct js"
    and c: "\<forall>j\<in>set js. j < length [''r0'', ''r1'']"
    and d: "flatten_references [?ex] ''complex'' ''simple'' 5 (sconst 0)
              = Inr ([AList.update ''simple'' (Str target) [(''complex'', Str ''c'')]], g1)"
    and e: "length [''r0'', ''r1''] = 2 \<and> (5::int) = 5 \<longrightarrow>
              target = ''0: '' @ [''r0'', ''r1''] ! (js ! 0) @ '' 1: '' @ [''r0'', ''r1''] ! (js ! 1)"
    by blast
  from a have a': "length js = 2" by simp
  from c have c': "\<forall>j\<in>set js. j < 2" by (simp add: numeral_2_eq_2)
  from e have e': "target = ''0: '' @ [''r0'', ''r1''] ! (js ! 0) @ '' 1: '' @ [''r0'', ''r1''] ! (js ! 1)"
    by simp
  from d have d': "flatten_references [?ex] ''complex'' ''simple'' 5 (sconst 0)
              = Inr ([[(''complex'', Str ''c''), (''simple'', Str target)]], g1)"
    by simp
  from a' b c' d' e' h1 h2 h3 show ?thesis by blast
qed

text \<open>
  C7: flattening an exemplar whose target is a single text with \<open>n_refs = 1\<close> returns
  the target unchanged and the source as it was; no random draw is consumed.
\<close>

theorem flatten_single_reference:
  assumes "map_of ex src_key = Some src" "map_of ex tgt_key = Some (Str tgt)"
  shows "flatten_references [ex] src_key tgt_key 1 g
           = Inr ([AList.update tgt_key (Str tgt) [(src_key, src)]], g)
         \<and> map_of (AList.update tgt_key (Str tgt) [(src_key, src)]) tgt_key = Some (Str tgt)
         \<and> (src_key \<noteq> tgt_key \<longrightarrow>
              map_of (AList.update tgt_key (Str tgt) [(src_key, src)]) src_key = Some src)"
  using assms by (simp add: flatten_reference_def update_conv')

theorem flatten_single_reference_witness:
  "map_of [(''complex'', Str ''A hard sentence.''), (''simple'', Str ''Easy.'')] ''complex''
     = Some (Str ''A hard sentence.'')
   \<and> map_of [(''complex'', Str ''A hard sentence.''), (''simple'', Str ''Easy.'')] ''simple''
     = Some (Str ''Easy.'')
   \<and> flatten_references [[(''complex'', Str ''A hard sentence.''), (''simple'', Str ''Easy.'')]]
       ''complex'' ''simple'' 1 (sconst 0)
     = Inr ([[(''complex'', Str ''A hard sentence.''), (''simple'', Str ''Easy.'')]], sconst 0)"
proof -
  let ?ex = "[(''complex'', Str ''A hard sentence.''), (''simple'', Str ''Easy.'')]"
  have h1: "map_of ?ex ''complex'' = Some (Str ''A hard sentence.'')" by simp
  have h2: "map_of ?ex ''simple'' = Some (Str ''Easy.'')" by simp
  from flatten_single_reference [OF h1 h2, of "sconst 0"]
  have "flatten_references [?ex] ''complex'' ''simple'' 1 (sconst 0)
          = Inr ([[(''complex'', Str ''A hard sentence.''), (''simple'', Str ''Easy.'')]], sconst 0)"
    by simp
  with h1 h2 show ?thesis by (intro conjI)
qed

section \<open>Echo removal\<close>

text \<open>
  C3, as stated: echo removal deletes only the first occurrence of the prompt and keeps
  later ones. On the prompt \<^verbatim>\<open>P1\<close> and the candidate \<^verbatim>\<open>P1 a P1 b\<close> the specification's
  wording keeps the second \<^verbatim>\<open>P1\<close>; the code removes it as well.
\<close>

theorem echo_removal_counterexample:
  "echo_removal ''P1'' ''P1 a P1 b'' = ''a  b''
   \<and> echo_removal_first_only ''P1'' ''P1 a P1 b'' = ''a P1 b''
   \<and> echo_removal ''P1'' ''P1 a P1 b'' \<noteq> echo_removal_first_only ''P1'' ''P1 a P1 b''
   \<and> postprocess_model_outputs [''P1''] [[''P1 a P1 b'']] [newline, newline] = Inr [[''a  b'']]"
  by (simp add: postprocess_eval echo_removal_first_only_def)

text \<open>
  C3, amended: echo removal deletes every occurrence of the prompt in the candidate,
  scanning from the left and skipping what an earlier occurrence covers, and then trims
  whitespace. Here the candidate is cut at exactly these occurrences: \<open>segs\<close> are the
  texts in front of each occurrence, \<open>rest\<close> is the text after the last one.
\<close>

theorem echo_removal_every_occurrence:
  assumes "input \<noteq> []"
    and "\<forall>s\<in>set segs. \<not> sublist input (s @ butlast input)"
    and "\<not> sublist input rest"
  shows "echo_removal input (concat (map (\<lambda>s. s @ input) segs) @ rest)
           = str_strip (concat segs @ rest)"
  using str_replace_every [OF assms, of "[]"] by (simp add: echo_removal_def)

theorem echo_removal_every_occurrence_witness:
  "''P1'' \<noteq> []
   \<and> \<not> sublist ''P1'' ('''' @ butlast ''P1'')
   \<and> \<not> sublist ''P1'' ('' a '' @ butlast ''P1'')
   \<and> \<not> sublist ''P1'' '' b''
   \<and> echo_removal ''P1'' ''P1 a P1 b'' = ''a  b''"
proof -
  have h1: "''P1'' \<noteq> []" by simp
  have h2: "\<forall>s\<in>set ['''', '' a '']. \<not> sublist ''P1'' (s @ butlast ''P1'')"
    by (simp add: sublist_Cons_right)
  have h3: "\<not> sublist ''P1'' '' b''" by (simp add: sublist_Cons_right)
  from echo_removal_every_occurrence [OF h1 h2 h3]
  have "echo_removal ''P1'' ''P1 a P1 b'' = ''a  b''"
    by (simp add: str_strip_def is_space_def)
  moreover have "\<not> sublist ''P1'' ('''' @ butlast ''P1'')"
    and "\<not> sublist ''P1'' ('' a '' @ butlast ''P1'')"
    using h2 by simp_all
  ultimately show ?thesis using h1 h3 by (intro conjI)
qed

section \<open>Prompt assembly\<close>

text \<open>
  C2: assembly should fail exactly when neither an exemplar list nor a selector is
  given, and succeed with a list alone. The code raises its RuntimeError when both are
  absent, but with a list alone it hands the template neither the list nor a selector
  (the list is passed on only when a selector is present), so the template is rejected:
  the call of the specification's example, and every call with a list alone and at
  least one input, ends in an error.
\<close>

theorem examples_alone_rejected:
  "prepare_prompted_inputs [''X''] (Some []) None ''P'' ''S:{input}'' example_prompt
      [newline, newline] ''prefix_initial'' g = Inl ValidationError
   \<and> prepare_prompted_inputs (i # inputs) (Some example_list) None prompt_prefix prompt_suffix
        example_prompt example_separator ''prefix_initial'' g = Inl ValidationError
   \<and> prepare_prompted_inputs (i # inputs) (Some example_list) None prompt_prefix prompt_suffix
        example_prompt example_separator ''prefix_every'' g = Inl ValidationError
   \<and> prepare_prompted_inputs inputs None None prompt_prefix prompt_suffix
        example_prompt example_separator prompt_format g = Inl RuntimeError"
  by (simp add: prepare_prompted_inputs_def few_shot_render_def few_shot_prompt_def
      new_FewShotPromptTemplate_def)

text \<open>
  C4: one input \<^verbatim>\<open>X\<close> under \<^verbatim>\<open>prefix_every\<close> with prefix \<^verbatim>\<open>P\<close>, one exemplar that
  renders to \<^verbatim>\<open>E\<close>, two newlines as separator and the suffix \<^verbatim>\<open>S:{input}\<close> gives
  \<^verbatim>\<open>P\n\nE\n\nP\n\nS:X\<close>, with one leading \<^verbatim>\<open>P\<close>. The exemplar comes from a selector.
\<close>

theorem prefix_every_example:
  assumes "select_examples selector [(''input'', ''X'')] g = Inr ([ex], g1)"
    and "example_prompt ex = Inr ''E''"
  shows "prepare_prompted_inputs [''X''] None (Some selector) ''P'' ''S:{input}'' example_prompt
           [newline, newline] ''prefix_every'' g
         = Inr ([''P'' @ [newline, newline] @ ''E'' @ [newline, newline] @ ''P''
                   @ [newline, newline] @ ''S:X''], g1)"
  using assms
  by (simp add: prepare_prompted_inputs_def few_shot_render_def few_shot_prompt_def
      new_FewShotPromptTemplate_def template_format_def get_examples_def format_template_def
      str_strip_def is_space_def newline_def)

theorem prefix_every_example_witness:
  "select_examples
      \<lparr>examples = [[(''complex'', Str ''E''), (''simple'', Str '''')]], few_shot_n = 1, n_refs = 1\<rparr>
      [(''input'', ''X'')] (sconst 0)
     = Inr ([[(''complex'', Str ''E''), (''simple'', Str '''')]], sconst 0)
   \<and> example_template [] [] [(''complex'', Str ''E''), (''simple'', Str '''')] = Inr ''E''
   \<and> prepare_prompted_inputs [''X''] None
        (Some \<lparr>examples = [[(''complex'', Str ''E''), (''simple'', Str '''')]],
               few_shot_n = 1, n_refs = 1\<rparr>)
        ''P'' ''S:{input}'' (example_template [] []) [newline, newline] ''prefix_every'' (sconst 0)
     = Inr ([''P'' @ [newline, newline] @ ''E'' @ [newline, newline] @ ''P''
               @ [newline, newline] @ ''S:X''], sconst 0)"
proof -
  let ?ex = "[(''complex'', Str ''E''), (''simple'', Str '''')]"
  let ?S = "\<lparr>examples = [?ex], few_shot_n = 1, n_refs = 1\<rparr>"
  have h1: "select_examples ?S [(''input'', ''X'')] (sconst 0) = Inr ([?ex], sconst 0)"
    by (simp add: select_examples_def random_sample_def randbelow_def flatten_reference_def)
  have h2: "example_template [] [] ?ex = Inr ''E''"
    by (simp add: example_template_def)
  from h1 h2 prefix_every_example [where example_prompt = "example_template [] []", OF h1 h2]
  show ?thesis by (intro conjI)
qed

text \<open>
  C9: the collapse of \<open>prefix + separator + prefix\<close> is applied whatever the layout is,
  and to the whole joined prompt: whenever the template renders to \<open>fsp\<close>, the prompt
  returned is \<open>fsp\<close> with that pattern replaced by the prefix, stripped. If \<open>fsp\<close> is cut
  at the occurrences of the pattern (\<open>segs\<close> in front of each, \<open>rest\<close> after the last),
  every one of them becomes a single prefix, wherever it is.
\<close>

theorem collapse_in_every_layout:
  assumes "few_shot_render i example_list example_selector prompt_prefix prompt_suffix
             example_prompt example_separator prompt_format g = Inr (fsp, g1)"
  shows "prepare_prompted_inputs [i] example_list example_selector prompt_prefix prompt_suffix
           example_prompt example_separator prompt_format g
         = Inr ([str_strip (str_replace (prompt_prefix @ example_separator @ prompt_prefix)
                              prompt_prefix fsp)], g1)
       \<and> (prompt_prefix @ example_separator @ prompt_prefix \<noteq> []
          \<and> (\<forall>s\<in>set segs. \<not> sublist (prompt_prefix @ example_separator @ prompt_prefix)
                 (s @ butlast (prompt_prefix @ example_separator @ prompt_prefix)))
          \<and> \<not> sublist (prompt_prefix @ example_separator @ prompt_prefix) rest
          \<and> fsp = concat (map (\<lambda>s. s @ prompt_prefix @ example_separator @ prompt_prefix) segs)
                    @ rest
          \<longrightarrow> prepare_prompted_inputs [i] example_list example_selector prompt_prefix
                prompt_suffix example_prompt example_separator prompt_format g
              = Inr ([str_strip (concat (map (\<lambda>s. s @ prompt_prefix) segs) @ rest)], g1))"
proof -
  let ?old = "prompt_prefix @ example_separator @ prompt_prefix"
  have res: "prepare_prompted_inputs [i] example_list example_selector prompt_prefix
           prompt_suffix example_prompt example_separator prompt_format g
         = Inr ([str_strip (str_replace ?old prompt_prefix fsp)], g1)"
    using assms few_shot_render_source [OF assms]
    by (auto simp: prepare_prompted_inputs_def)
  have "str_replace ?old prompt_prefix fsp = concat (map (\<lambda>s. s @ prompt_prefix) segs) @ rest"
    if "?old \<noteq> []" "\<forall>s\<in>set segs. \<not> sublist ?old (s @ butlast ?old)"
       "\<not> sublist ?old rest" "fsp = concat (map (\<lambda>s. s @ ?old) segs) @ rest"
    using str_replace_every [OF that(1,2,3), of prompt_prefix] that(4) by simp
  with res show ?thesis by auto
qed

theorem collapse_in_every_layout_witness:
  "few_shot_render ''X'' None
      (Some \<lparr>examples = [[(''complex'', Str (''aP'' @ [newline, newline] @ ''Pb'')),
                           (''simple'', Str '''')]], few_shot_n = 1, n_refs = 1\<rparr>)
      ''P'' ''S:{input}'' (example_template [] []) [newline, newline] ''prefix_initial'' (sconst 0)
     = Inr (''P'' @ [newline, newline] @ ''aP'' @ [newline, newline] @ ''Pb''
              @ [newline, newline] @ ''S:X'', sconst 0)
   \<and> prepare_prompted_inputs [''X''] None
      (Some \<lparr>examples = [[(''complex'', Str (''aP'' @ [newline, newline] @ ''Pb'')),
                           (''simple'', Str '''')]], few_shot_n = 1, n_refs = 1\<rparr>)
      ''P'' ''S:{input}'' (example_template [] []) [newline, newline] ''prefix_initial'' (sconst 0)
     = Inr ([''P'' @ [newline, newline] @ ''aPb'' @ [newline, newline] @ ''S:X''], sconst 0)"
proof -
  let ?S = "\<lparr>examples = [[(''complex'', Str (''aP'' @ [newline, newline] @ ''Pb'')),
                           (''simple'', Str '''')]], few_shot_n = 1, n_refs = 1\<rparr>"
  let ?fsp = "''P'' @ [newline, newline] @ ''aP'' @ [newline, newline] @ ''Pb''
              @ [newline, newline] @ ''S:X''"
  have h: "few_shot_render ''X'' None (Some ?S) ''P'' ''S:{input}'' (example_template [] [])
             [newline, newline] ''prefix_initial'' (sconst 0) = Inr (?fsp, sconst 0)"
    by (simp add: assemble_eval)
  have "prepare_prompted_inputs [''X''] None (Some ?S) ''P'' ''S:{input}''
          (example_template [] []) [newline, newline] ''prefix_initial'' (sconst 0)
        = Inr ([''P'' @ [newline, newline] @ ''aPb'' @ [newline, newline] @ ''S:X''], sconst 0)"
    using collapse_in_every_layout [OF h, of "[''P'' @ [newline, newline] @ ''a'']"
        "''b'' @ [newline, newline] @ ''S:X''"]
    by (simp add: sublist_Cons_right str_strip_def is_space_def newline_def)
  with h show ?thesis by (intro conjI)
qed

end
